theory Spec2Isabelle
  imports Main
begin

section \<open>The intent router of broadway\_copilot\<close>

text \<open>
  The development embeds \<^verbatim>\<open>routeIntent\<close> (source file part\_001) and states the
  routing properties of the specification over it.

  Modelling decisions.
  \<^item> A JavaScript string is a \<open>string\<close>; each \<open>char\<close> stands for one code unit below
    256 (the Latin-1 range), which is closed under \<^verbatim>\<open>toLowerCase\<close> and holds every
    token and literal of the router.
  \<^item> An optional or nullable field is an \<open>option\<close>; the truthiness tests of the source
    (\<^verbatim>\<open>if (buttonPayload)\<close>, \<^verbatim>\<open>lastVibeCheckAt ? ... : -1\<close>,
    \<^verbatim>\<open>user.inferredGender || user.confirmedGender\<close>) are written out.
  \<^item> A \<^verbatim>\<open>Date\<close> is its \<^verbatim>\<open>getTime()\<close> value, an \<open>int\<close> of milliseconds. For
    integral millisecond values \<^verbatim>\<open>Math.floor(d / (1000 * 60))\<close> is the floor
    division \<open>d div 60000\<close>.
  \<^item> The intent of a state is the string the running program stores there: the source
    casts a button payload to \<^verbatim>\<open>IntentLabel\<close> without checking it.
  \<^item> The collaborators that are not part of the router (the clock, the image counter,
    the prompt loader and the structured-output classifier) are the fields of an
    environment record. A collaborator that can throw returns a sum, \<open>Inl\<close> the thrown
    value.
  \<^item> The router returns its outcome together with the list of external calls it made,
    in order, so that "no classifier call" and "one classifier call" are statements
    about the model.
\<close>

subsection \<open>Strings\<close>

definition toLowerCase_char :: "char \<Rightarrow> char" where
  "toLowerCase_char c =
     (let n = (of_char c :: nat)
      in if (65 \<le> n \<and> n \<le> 90) \<or> (192 \<le> n \<and> n \<le> 222 \<and> n \<noteq> 215)
         then char_of (n + 32) else c)"

definition toLowerCase :: "string \<Rightarrow> string" where
  "toLowerCase s = map toLowerCase_char s"

text \<open>White space and line terminators of ECMAScript among the code units below 256:
  TAB, LF, VT, FF, CR, SP and NBSP.\<close>

definition isWhiteSpace :: "char \<Rightarrow> bool" where
  "isWhiteSpace c = ((of_char c :: nat) \<in> {9, 10, 11, 12, 13, 32, 160})"

definition trim :: "string \<Rightarrow> string" where
  "trim s = rev (dropWhile isWhiteSpace (rev (dropWhile isWhiteSpace s)))"

text \<open>\<^verbatim>\<open>Array.prototype.includes\<close> on an array of strings.\<close>

definition array_includes :: "string list \<Rightarrow> string \<Rightarrow> bool" where
  "array_includes xs x = (x \<in> set xs)"

text \<open>\<^verbatim>\<open>String.prototype.replace\<close> with a string pattern: the first occurrence only.
  The replacements of the router (\<^verbatim>\<open>true\<close>, \<^verbatim>\<open>false\<close>) hold no \<^verbatim>\<open>$\<close> pattern.\<close>

fun replace :: "string \<Rightarrow> string \<Rightarrow> string \<Rightarrow> string" where
  "replace [] pat rep = (if pat = [] then rep else [])"
| "replace (c # cs) pat rep =
     (if take (length pat) (c # cs) = pat then rep @ drop (length pat) (c # cs)
      else c # replace cs pat rep)"

text \<open>\<^verbatim>\<open>String.prototype.includes\<close>: the argument occurs as a contiguous part.\<close>

fun str_includes :: "string \<Rightarrow> string \<Rightarrow> bool" where
  "str_includes [] pat = (pat = [])"
| "str_includes (c # cs) pat =
     (take (length pat) (c # cs) = pat \<or> str_includes cs pat)"

definition bool_toString :: "bool \<Rightarrow> string" where
  "bool_toString b = (if b then ''true'' else ''false'')"

subsection \<open>Data model\<close>

text \<open>The members of \<^verbatim>\<open>PendingType\<close> that the router names; the Prisma enum is
  declared outside the source files, so every other member is \<open>OTHER_PENDING\<close>.\<close>

datatype PendingType =
    TONALITY_SELECTION
  | VIBE_CHECK_IMAGE
  | COLOR_ANALYSIS_IMAGE
  | OTHER_PENDING string

text \<open>\<^verbatim>\<open>LLMOutputSchema\<close>: the two enumerations of the classifier's output.\<close>

datatype LLMIntent = general | vibe_check | color_analysis | styling

datatype MissingProfileField = gender | age_group

record LLMOutput =
  llm_intent :: LLMIntent
  llm_missingProfileField :: "MissingProfileField option"

fun IntentLabel :: "LLMIntent \<Rightarrow> string" where
  "IntentLabel general = ''general''"
| "IntentLabel vibe_check = ''vibe_check''"
| "IntentLabel color_analysis = ''color_analysis''"
| "IntentLabel styling = ''styling''"

record User =
  userId :: string
  lastVibeCheckAt :: "int option"
  lastColorAnalysisAt :: "int option"
  inferredGender :: "string option"
  confirmedGender :: "string option"
  inferredAgeGroup :: "string option"
  confirmedAgeGroup :: "string option"

record Input =
  ButtonPayload :: "string option"
  Body :: "string option"

record Reply =
  reply_type :: string
  reply_text :: string

record ('m, 't) GraphState =
  user :: User
  input :: Input
  conversationHistoryWithImages :: "'m list"
  conversationHistoryTextOnly :: "'m list"
  traceBuffer :: 't
  pending :: "PendingType option"
  intent :: "string option"
  selectedTonality :: "string option"
  missingProfileField :: "MissingProfileField option"
  assistantReply :: "Reply list option"

datatype 'x error = InternalServerError string 'x

datatype event =
    LogDebug string
  | LoadPrompt string
  | LLMRun string string

record ('m, 't, 'x) Env =
  now :: int
  numImagesInMessage :: "'m list \<Rightarrow> int"
  loadPrompt :: "string \<Rightarrow> 'x + string"
  run :: "string \<Rightarrow> 'm list \<Rightarrow> 't \<Rightarrow> string \<Rightarrow> 'x + LLMOutput"

text \<open>JavaScript truthiness of a nullable string: neither absent nor empty.\<close>

fun truthy :: "string option \<Rightarrow> bool" where
  "truthy None = False"
| "truthy (Some s) = (s \<noteq> [])"

subsection \<open>The router\<close>

definition validTonalities :: "string list" where
  "validTonalities = [''friendly'', ''savage'', ''hype_bff'']"

definition stylingRelated :: "string list" where
  "stylingRelated = [''styling'', ''occasion'', ''vacation'', ''pairing'']"

definition otherValid :: "string list" where
  "otherValid = [''general'', ''vibe_check'', ''color_analysis'', ''suggest'']"

text \<open>Priority 1 (lines 46 to 68), entered with a truthy button payload.\<close>

definition routeButton ::
  "string \<Rightarrow> ('m, 't) GraphState \<Rightarrow> ('m, 't) GraphState" where
  "routeButton buttonPayload state =
     (if array_includes stylingRelated buttonPayload
      then state\<lparr>intent := Some ''styling'', missingProfileField := None\<rparr>
      else if array_includes otherValid buttonPayload
      then state\<lparr>intent := Some buttonPayload, missingProfileField := None\<rparr>
      else if array_includes validTonalities buttonPayload
      then state\<lparr>intent := Some ''vibe_check'',
                 selectedTonality := Some buttonPayload,
                 pending := None,
                 missingProfileField := None\<rparr>
      else state\<lparr>intent := Some ''general'', missingProfileField := None\<rparr>)"

text \<open>Priority 2 (lines 72 to 98), entered with \<open>pending = TONALITY_SELECTION\<close>.\<close>

definition invalidTonalityReply :: Reply where
  "invalidTonalityReply =
     \<lparr>reply_type = ''text'',
      reply_text =
        ''Invalid tonality selection. Please choose one of: Friendly, Savage, Hype BFF''\<rparr>"

definition userMessage :: "('m, 't) GraphState \<Rightarrow> string" where
  "userMessage state =
     (case Body (input state) of
        None \<Rightarrow> []
      | Some b \<Rightarrow> trim (toLowerCase b))"

definition routeTonalitySelection :: "('m, 't) GraphState \<Rightarrow> ('m, 't) GraphState" where
  "routeTonalitySelection state =
     (if array_includes validTonalities (userMessage state)
      then state\<lparr>selectedTonality := Some (userMessage state),
                 pending := Some VIBE_CHECK_IMAGE,
                 intent := Some ''vibe_check'',
                 missingProfileField := None\<rparr>
      else state\<lparr>assistantReply := Some [invalidTonalityReply],
                 pending := Some TONALITY_SELECTION\<rparr>)"

text \<open>The cooldown computation (lines 116 to 125). A timestamp of 0 is falsy in
  \<^verbatim>\<open>lastVibeCheckAt ? ... : -1\<close>, like \<^verbatim>\<open>null\<close>.\<close>

definition minutesAgo :: "int \<Rightarrow> int option \<Rightarrow> int" where
  "minutesAgo n lastAt =
     (case lastAt of
        None \<Rightarrow> - 1
      | Some t \<Rightarrow> if t = 0 then - 1 else (n - t) div (1000 * 60))"

definition vibeMinutesAgo :: "int \<Rightarrow> User \<Rightarrow> int" where
  "vibeMinutesAgo n u = minutesAgo n (lastVibeCheckAt u)"

definition canDoVibeCheck :: "int \<Rightarrow> User \<Rightarrow> bool" where
  "canDoVibeCheck n u = (vibeMinutesAgo n u = - 1 \<or> vibeMinutesAgo n u \<ge> 30)"

definition colorMinutesAgo :: "int \<Rightarrow> User \<Rightarrow> int" where
  "colorMinutesAgo n u = minutesAgo n (lastColorAnalysisAt u)"

definition canDoColorAnalysis :: "int \<Rightarrow> User \<Rightarrow> bool" where
  "canDoColorAnalysis n u = (colorMinutesAgo n u = - 1 \<or> colorMinutesAgo n u \<ge> 30)"

text \<open>The post-processing of the classifier's missing field (lines 142 to 151).\<close>

definition suppressMissingField ::
  "User \<Rightarrow> MissingProfileField option \<Rightarrow> MissingProfileField option" where
  "suppressMissingField u m =
     (case m of
        None \<Rightarrow> None
      | Some f \<Rightarrow>
          if f = gender \<and> (truthy (inferredGender u) \<or> truthy (confirmedGender u))
          then None
          else if f = age_group \<and> (truthy (inferredAgeGroup u) \<or> truthy (confirmedAgeGroup u))
          then None
          else Some f)"

definition formattedSystemPrompt :: "int \<Rightarrow> User \<Rightarrow> string \<Rightarrow> string" where
  "formattedSystemPrompt n u systemPromptText =
     replace
       (replace systemPromptText ''{can_do_vibe_check}'' (bool_toString (canDoVibeCheck n u)))
       ''{can_do_color_analysis}'' (bool_toString (canDoColorAnalysis n u))"

text \<open>Priority 4 (lines 115 to 158): the cooldowns, then the \<^verbatim>\<open>try\<close> block. Every
  value thrown inside it is wrapped as the cause of one \<open>InternalServerError\<close>.\<close>

definition routeLLM ::
  "('m, 't, 'x) Env \<Rightarrow> ('m, 't) GraphState \<Rightarrow> ('x error + ('m, 't) GraphState) \<times> event list" where
  "routeLLM env state =
     (case loadPrompt env ''routing/route_intent.txt'' of
        Inl err \<Rightarrow>
          (Inl (InternalServerError ''Failed to route intent'' err),
           [LoadPrompt ''routing/route_intent.txt''])
      | Inr systemPromptText \<Rightarrow>
          (let systemPrompt = formattedSystemPrompt (now env) (user state) systemPromptText
           in case run env systemPrompt (conversationHistoryTextOnly state)
                     (traceBuffer state) ''routeIntent'' of
                Inl err \<Rightarrow>
                  (Inl (InternalServerError ''Failed to route intent'' err),
                   [LoadPrompt ''routing/route_intent.txt'',
                    LLMRun systemPrompt ''routeIntent''])
              | Inr response \<Rightarrow>
                  (Inr (state\<lparr>intent := Some (IntentLabel (llm_intent response)),
                              missingProfileField :=
                                suppressMissingField (user state)
                                  (llm_missingProfileField response)\<rparr>),
                   [LoadPrompt ''routing/route_intent.txt'',
                    LLMRun systemPrompt ''routeIntent'',
                    LogDebug ''Intent routed via LLM''])))"

text \<open>Priority 3 (lines 100 to 113) and the fall through to priority 4.\<close>

definition routePendingImage ::
  "('m, 't, 'x) Env \<Rightarrow> ('m, 't) GraphState \<Rightarrow> ('x error + ('m, 't) GraphState) \<times> event list" where
  "routePendingImage env state =
     (let imageCount = numImagesInMessage env (conversationHistoryWithImages state)
      in if imageCount > 0 \<and> pending state = Some VIBE_CHECK_IMAGE
         then (Inr (state\<lparr>intent := Some ''vibe_check'', missingProfileField := None\<rparr>),
               [LogDebug ''Routing to vibe_check due to pending intent and image presence''])
         else if imageCount > 0 \<and> pending state = Some COLOR_ANALYSIS_IMAGE
         then (Inr (state\<lparr>intent := Some ''color_analysis'', missingProfileField := None\<rparr>),
               [LogDebug ''Routing to color_analysis due to pending intent and image presence''])
         else routeLLM env state)"

text \<open>\<^verbatim>\<open>routeIntent\<close> (lines 40 to 159): the cascade.\<close>

definition routeIntent ::
  "('m, 't, 'x) Env \<Rightarrow> ('m, 't) GraphState \<Rightarrow> ('x error + ('m, 't) GraphState) \<times> event list" where
  "routeIntent env state =
     (if truthy (ButtonPayload (input state))
      then (Inr (routeButton (case ButtonPayload (input state) of Some b \<Rightarrow> b | None \<Rightarrow> []) state), [])
      else if pending state = Some TONALITY_SELECTION
      then (Inr (routeTonalitySelection state), [])
      else routePendingImage env state)"

text \<open>The guard under which the cascade arrives at priority 4: no truthy button
  payload, no pending tonality selection, and no pending image expectation met by an
  image.\<close>

definition reachesLLM :: "('m, 't, 'x) Env \<Rightarrow> ('m, 't) GraphState \<Rightarrow> bool" where
  "reachesLLM env state =
     (\<not> truthy (ButtonPayload (input state)) \<and>
      pending state \<noteq> Some TONALITY_SELECTION \<and>
      \<not> (numImagesInMessage env (conversationHistoryWithImages state) > 0 \<and>
         (pending state = Some VIBE_CHECK_IMAGE \<or> pending state = Some COLOR_ANALYSIS_IMAGE)))"

subsection \<open>Vocabulary of the properties\<close>

text \<open>The closed set of intents: the members of the \<^verbatim>\<open>intent\<close> enumeration of
  \<^verbatim>\<open>LLMOutputSchema\<close>.\<close>

definition closedIntents :: "string list" where
  "closedIntents = map IntentLabel [general, vibe_check, color_analysis, styling]"

definition hasClosedIntent :: "('m, 't) GraphState \<Rightarrow> bool" where
  "hasClosedIntent state =
     (case intent state of
        None \<Rightarrow> False
      | Some i \<Rightarrow> array_includes closedIntents i)"

text \<open>A turn answered by the else-branch of priority 2.\<close>

definition invalidTonalityTurn :: "('m, 't) GraphState \<Rightarrow> bool" where
  "invalidTonalityTurn state =
     (\<not> truthy (ButtonPayload (input state)) \<and>
      pending state = Some TONALITY_SELECTION \<and>
      \<not> array_includes validTonalities (userMessage state))"

fun isLLMRun :: "event \<Rightarrow> bool" where
  "isLLMRun (LLMRun _ _) = True"
| "isLLMRun _ = False"

subsection \<open>Concrete inputs\<close>

definition exUser :: User where
  "exUser =
     \<lparr>userId = ''u1'', lastVibeCheckAt = None, lastColorAnalysisAt = None,
      inferredGender = None, confirmedGender = None,
      inferredAgeGroup = None, confirmedAgeGroup = None\<rparr>"

definition exState :: "(unit, unit) GraphState" where
  "exState =
     \<lparr>user = exUser,
      input = \<lparr>ButtonPayload = None, Body = Some ''hello''\<rparr>,
      conversationHistoryWithImages = [()],
      conversationHistoryTextOnly = [()],
      traceBuffer = (),
      pending = None,
      intent = None,
      selectedTonality = None,
      missingProfileField = None,
      assistantReply = None\<rparr>"

text \<open>An environment whose history holds one image per entry, whose prompt template is
  the two placeholders, and whose classifier answers \<open>response\<close>.\<close>

definition exEnv :: "'x + LLMOutput \<Rightarrow> (unit, unit, 'x) Env" where
  "exEnv response =
     \<lparr>now = 1700000000000,
      numImagesInMessage = (\<lambda>h. int (length h)),
      loadPrompt = (\<lambda>p. Inr ''{can_do_vibe_check}/{can_do_color_analysis}''),
      run = (\<lambda>p h t n. response)\<rparr>"

definition exResponse :: LLMOutput where
  "exResponse = \<lparr>llm_intent = styling, llm_missingProfileField = Some gender\<rparr>"

section \<open>Properties\<close>

subsection \<open>Shared facts\<close>

lemma routeIntent_reachesLLM:
  "reachesLLM env state \<Longrightarrow> routeIntent env state = routeLLM env state"
  by (auto simp: reachesLLM_def routeIntent_def routePendingImage_def Let_def)

lemma validTonalities_not_button:
  "array_includes validTonalities p \<Longrightarrow>
     p \<noteq> [] \<and> \<not> array_includes stylingRelated p \<and> \<not> array_includes otherValid p"
  by (auto simp: array_includes_def validTonalities_def stylingRelated_def otherValid_def)

lemma lower_trim_Savage: "trim (toLowerCase '' Savage '') = ''savage''"
  by code_simp

lemma lower_trim_maybe: "trim (toLowerCase ''maybe'') = ''maybe''"
  by code_simp

lemma lower_trim_Hype_BFF: "trim (toLowerCase ''Hype BFF'') = ''hype bff''"
  by code_simp

lemma reply_lacks_hype_bff:
  "\<not> str_includes (toLowerCase (reply_text invalidTonalityReply)) ''hype_bff''"
  by code_simp

lemma reply_lists_friendly_savage:
  "str_includes (toLowerCase (reply_text invalidTonalityReply)) ''friendly'' \<and>
   str_includes (toLowerCase (reply_text invalidTonalityReply)) ''savage''"
  by code_simp

lemma formatted_example:
  "replace (replace ''{can_do_vibe_check}/{can_do_color_analysis}''
      ''{can_do_vibe_check}'' ''true'') ''{can_do_color_analysis}'' ''true'' = ''true/true''"
  by code_simp

lemma formattedSystemPrompt_eligible:
  assumes "canDoVibeCheck n u" and "canDoColorAnalysis n u"
  shows "formattedSystemPrompt n u ''{can_do_vibe_check}/{can_do_color_analysis}'' = ''true/true''"
  unfolding formattedSystemPrompt_def using assms
  by (simp only: bool_toString_def if_True formatted_example)

lemma reachesLLM_exState: "reachesLLM (exEnv r) (exState\<lparr>user := u\<rparr>)"
  by (simp add: reachesLLM_def exState_def)

subsection \<open>Priority 1: button payloads\<close>

text \<open>
  Claim C2. For every environment and every session state (whatever its pending
  expectation and profile), a button payload that is one of the three tonality tokens
  makes \<open>routeIntent\<close> return at once: the intent is \<open>vibe_check\<close>, the payload is
  recorded as the selected tonality, pending and the missing profile field are null,
  every other field is as it was, and no external call has been made.
\<close>

theorem routeIntent_tonality_button:
  assumes "array_includes validTonalities p"
    and "ButtonPayload (input state) = Some p"
  shows "routeIntent env state =
           (Inr (state\<lparr>intent := Some ''vibe_check'',
                       selectedTonality := Some p,
                       pending := None,
                       missingProfileField := None\<rparr>), [])"
  using validTonalities_not_button [OF assms(1)] assms
  by (simp add: routeIntent_def routeButton_def)

theorem routeIntent_tonality_button_witness:
  "array_includes validTonalities ''savage'' \<and>
   routeIntent (exEnv (Inr exResponse :: string + LLMOutput))
     (exState\<lparr>input := \<lparr>ButtonPayload = Some ''savage'', Body = None\<rparr>,
              pending := Some COLOR_ANALYSIS_IMAGE\<rparr>) =
     (Inr (exState\<lparr>input := \<lparr>ButtonPayload = Some ''savage'', Body = None\<rparr>,
                   pending := None,
                   intent := Some ''vibe_check'',
                   selectedTonality := Some ''savage'',
                   missingProfileField := None\<rparr>), [])"
proof -
  have h: "array_includes validTonalities ''savage''"
    by (simp add: array_includes_def validTonalities_def)
  show ?thesis
    using h routeIntent_tonality_button [OF h, of
        "exState\<lparr>input := \<lparr>ButtonPayload = Some ''savage'', Body = None\<rparr>,
                 pending := Some COLOR_ANALYSIS_IMAGE\<rparr>"
        "exEnv (Inr exResponse :: string + LLMOutput)"]
    by (simp add: exState_def)
qed

text \<open>
  Claim C10. Button payloads are matched exactly, character for character: a
  non-empty payload that is in none of the three token lists (such as \<open>Savage\<close> with
  a capital letter) gives the intent \<open>general\<close> and a null missing profile field. The
  result is the same for every environment and every pending expectation, and no
  external call is made.
\<close>

theorem routeIntent_unknown_button:
  assumes "p \<noteq> []"
    and "\<not> array_includes stylingRelated p"
    and "\<not> array_includes otherValid p"
    and "\<not> array_includes validTonalities p"
    and "ButtonPayload (input state) = Some p"
  shows "routeIntent env state =
           (Inr (state\<lparr>intent := Some ''general'', missingProfileField := None\<rparr>), [])"
  using assms by (simp add: routeIntent_def routeButton_def)

theorem routeIntent_unknown_button_witness:
  "''Savage'' \<noteq> [] \<and>
   \<not> array_includes stylingRelated ''Savage'' \<and>
   \<not> array_includes otherValid ''Savage'' \<and>
   \<not> array_includes validTonalities ''Savage'' \<and>
   routeIntent (exEnv (Inr exResponse :: string + LLMOutput))
     (exState\<lparr>input := \<lparr>ButtonPayload = Some ''Savage'', Body = None\<rparr>,
              pending := Some TONALITY_SELECTION\<rparr>) =
     (Inr (exState\<lparr>input := \<lparr>ButtonPayload = Some ''Savage'', Body = None\<rparr>,
                   pending := Some TONALITY_SELECTION,
                   intent := Some ''general'',
                   missingProfileField := None\<rparr>), [])"
proof -
  have h1: "''Savage'' \<noteq> []" by simp
  have h2: "\<not> array_includes stylingRelated ''Savage''"
    by (simp add: array_includes_def stylingRelated_def)
  have h3: "\<not> array_includes otherValid ''Savage''"
    by (simp add: array_includes_def otherValid_def)
  have h4: "\<not> array_includes validTonalities ''Savage''"
    by (simp add: array_includes_def validTonalities_def)
  show ?thesis
    using h1 h2 h3 h4 routeIntent_unknown_button [OF h1 h2 h3 h4, of
        "exState\<lparr>input := \<lparr>ButtonPayload = Some ''Savage'', Body = None\<rparr>,
                 pending := Some TONALITY_SELECTION\<rparr>"
        "exEnv (Inr exResponse :: string + LLMOutput)"]
    by (simp add: exState_def)
qed

subsection \<open>Priority 2: pending tonality selection\<close>

text \<open>
  Claim C3. Without a button payload and with \<open>pending = TONALITY_SELECTION\<close>, a
  message text that, lower-cased and trimmed, is one of the three tonality tokens is
  recorded as the selected tonality in that lower-cased, trimmed form; pending
  advances to \<open>VIBE_CHECK_IMAGE\<close>, the intent is \<open>vibe_check\<close> and the missing profile
  field is null.
\<close>

theorem routeIntent_valid_tonality_text:
  assumes "\<not> truthy (ButtonPayload (input state))"
    and "pending state = Some TONALITY_SELECTION"
    and "Body (input state) = Some b"
    and "array_includes validTonalities (trim (toLowerCase b))"
  shows "routeIntent env state =
           (Inr (state\<lparr>selectedTonality := Some (trim (toLowerCase b)),
                       pending := Some VIBE_CHECK_IMAGE,
                       intent := Some ''vibe_check'',
                       missingProfileField := None\<rparr>), [])"
  using assms by (simp add: routeIntent_def routeTonalitySelection_def userMessage_def)

theorem routeIntent_valid_tonality_text_witness:
  "\<not> truthy None \<and>
   array_includes validTonalities (trim (toLowerCase '' Savage '')) \<and>
   routeIntent (exEnv (Inr exResponse :: string + LLMOutput))
     (exState\<lparr>input := \<lparr>ButtonPayload = None, Body = Some '' Savage ''\<rparr>,
              pending := Some TONALITY_SELECTION\<rparr>) =
     (Inr (exState\<lparr>input := \<lparr>ButtonPayload = None, Body = Some '' Savage ''\<rparr>,
                   pending := Some VIBE_CHECK_IMAGE,
                   selectedTonality := Some ''savage'',
                   intent := Some ''vibe_check'',
                   missingProfileField := None\<rparr>), [])"
proof -
  let ?st = "exState\<lparr>input := \<lparr>ButtonPayload = None, Body = Some '' Savage ''\<rparr>,
                     pending := Some TONALITY_SELECTION\<rparr>"
  have h1: "\<not> truthy (ButtonPayload (input ?st))" by simp
  have h2: "pending ?st = Some TONALITY_SELECTION" by simp
  have h3: "Body (input ?st) = Some '' Savage ''" by simp
  have h4: "array_includes validTonalities (trim (toLowerCase '' Savage ''))"
    by (simp add: lower_trim_Savage array_includes_def validTonalities_def)
  show ?thesis
    using h4 routeIntent_valid_tonality_text [OF h1 h2 h3 h4,
        of "exEnv (Inr exResponse :: string + LLMOutput)"]
    by (simp add: exState_def lower_trim_Savage)
qed

text \<open>The else-branch of priority 2, for every state that takes it: pending stays
  \<open>TONALITY_SELECTION\<close>, the reply list is the one fixed text reply, and every other
  field, the intent among them, is as it was.\<close>

lemma routeIntent_invalid_tonality_text:
  assumes "invalidTonalityTurn state"
  shows "routeIntent env state =
           (Inr (state\<lparr>assistantReply := Some [invalidTonalityReply],
                       pending := Some TONALITY_SELECTION\<rparr>), [])"
  using assms by (simp add: invalidTonalityTurn_def routeIntent_def routeTonalitySelection_def)

text \<open>
  Claim C4. With \<open>pending = TONALITY_SELECTION\<close> and the text \<open>maybe\<close> the router
  keeps pending and the intent and emits one text reply. The reply names the third
  option as \<open>Hype BFF\<close>: lower-cased, the text does not contain the valid token
  \<open>hype_bff\<close>, so it does not list all three valid tokens case-insensitively; and a
  user who answers with the listed \<open>Hype BFF\<close> is rejected by the same branch, since
  the text lower-cases to \<open>hype bff\<close>.
\<close>

theorem routeIntent_reply_omits_hype_bff:
  "routeIntent (exEnv (Inr exResponse :: string + LLMOutput))
     (exState\<lparr>input := \<lparr>ButtonPayload = None, Body = Some ''maybe''\<rparr>,
              pending := Some TONALITY_SELECTION\<rparr>) =
     (Inr (exState\<lparr>input := \<lparr>ButtonPayload = None, Body = Some ''maybe''\<rparr>,
                   pending := Some TONALITY_SELECTION,
                   assistantReply := Some [invalidTonalityReply]\<rparr>), []) \<and>
   array_includes validTonalities ''hype_bff'' \<and>
   \<not> str_includes (toLowerCase (reply_text invalidTonalityReply)) ''hype_bff'' \<and>
   str_includes (reply_text invalidTonalityReply) ''Hype BFF'' \<and>
   routeIntent (exEnv (Inr exResponse :: string + LLMOutput))
     (exState\<lparr>input := \<lparr>ButtonPayload = None, Body = Some ''Hype BFF''\<rparr>,
              pending := Some TONALITY_SELECTION\<rparr>) =
     (Inr (exState\<lparr>input := \<lparr>ButtonPayload = None, Body = Some ''Hype BFF''\<rparr>,
                   pending := Some TONALITY_SELECTION,
                   assistantReply := Some [invalidTonalityReply]\<rparr>), [])"
proof -
  have a: "str_includes (reply_text invalidTonalityReply) ''Hype BFF''"
    by code_simp
  have b: "array_includes validTonalities ''hype_bff''"
    by (simp add: array_includes_def validTonalities_def)
  show ?thesis
    using a b reply_lacks_hype_bff
    by (simp add: routeIntent_def routeTonalitySelection_def userMessage_def exState_def
        lower_trim_maybe lower_trim_Hype_BFF array_includes_def validTonalities_def)
qed

subsection \<open>Priority 3: pending image expectations\<close>

text \<open>
  Claim C5. Without a button payload, with pending other than \<open>TONALITY_SELECTION\<close>
  and with at least one image in the turn: pending \<open>VIBE_CHECK_IMAGE\<close> gives the intent
  \<open>vibe_check\<close> and a null missing profile field; pending \<open>COLOR_ANALYSIS_IMAGE\<close> gives
  the intent \<open>color_analysis\<close> and a null missing profile field; any other pending
  value (or none) skips the branch, and the router does exactly what the cooldown and
  classification step does.
\<close>

theorem routeIntent_pending_image:
  assumes "\<not> truthy (ButtonPayload (input state))"
    and "pending state \<noteq> Some TONALITY_SELECTION"
    and "numImagesInMessage env (conversationHistoryWithImages state) > 0"
  shows "(pending state = Some VIBE_CHECK_IMAGE \<longrightarrow>
            fst (routeIntent env state) =
              Inr (state\<lparr>intent := Some ''vibe_check'', missingProfileField := None\<rparr>)) \<and>
         (pending state = Some COLOR_ANALYSIS_IMAGE \<longrightarrow>
            fst (routeIntent env state) =
              Inr (state\<lparr>intent := Some ''color_analysis'', missingProfileField := None\<rparr>)) \<and>
         (pending state \<noteq> Some VIBE_CHECK_IMAGE \<and> pending state \<noteq> Some COLOR_ANALYSIS_IMAGE \<longrightarrow>
            routeIntent env state = routeLLM env state)"
  using assms by (simp add: routeIntent_def routePendingImage_def Let_def)

theorem routeIntent_pending_image_witness:
  "fst (routeIntent (exEnv (Inr exResponse :: string + LLMOutput))
          (exState\<lparr>pending := Some VIBE_CHECK_IMAGE\<rparr>)) =
     Inr (exState\<lparr>pending := Some VIBE_CHECK_IMAGE, intent := Some ''vibe_check''\<rparr>) \<and>
   fst (routeIntent (exEnv (Inr exResponse :: string + LLMOutput))
          (exState\<lparr>pending := Some COLOR_ANALYSIS_IMAGE\<rparr>)) =
     Inr (exState\<lparr>pending := Some COLOR_ANALYSIS_IMAGE, intent := Some ''color_analysis''\<rparr>) \<and>
   routeIntent (exEnv (Inr exResponse :: string + LLMOutput)) exState =
     routeLLM (exEnv (Inr exResponse :: string + LLMOutput)) exState \<and>
   fst (routeLLM (exEnv (Inr exResponse :: string + LLMOutput)) exState) =
     Inr (exState\<lparr>intent := Some ''styling'', missingProfileField := Some gender\<rparr>)"
proof -
  let ?env = "exEnv (Inr exResponse :: string + LLMOutput)"
  have v: "fst (routeIntent ?env (exState\<lparr>pending := Some VIBE_CHECK_IMAGE\<rparr>)) =
     Inr (exState\<lparr>pending := Some VIBE_CHECK_IMAGE, intent := Some ''vibe_check''\<rparr>)"
    using routeIntent_pending_image [of "exState\<lparr>pending := Some VIBE_CHECK_IMAGE\<rparr>" ?env]
    by (simp add: exState_def exEnv_def)
  have c: "fst (routeIntent ?env (exState\<lparr>pending := Some COLOR_ANALYSIS_IMAGE\<rparr>)) =
     Inr (exState\<lparr>pending := Some COLOR_ANALYSIS_IMAGE, intent := Some ''color_analysis''\<rparr>)"
    using routeIntent_pending_image [of "exState\<lparr>pending := Some COLOR_ANALYSIS_IMAGE\<rparr>" ?env]
    by (simp add: exState_def exEnv_def)
  have n: "routeIntent ?env exState = routeLLM ?env exState"
    using routeIntent_pending_image [of exState ?env]
    by (simp add: exState_def exEnv_def)
  have l: "fst (routeLLM ?env exState) =
     Inr (exState\<lparr>intent := Some ''styling'', missingProfileField := Some gender\<rparr>)"
    by (simp add: routeLLM_def exEnv_def exResponse_def suppressMissingField_def
        exState_def exUser_def)
  from v c n l show ?thesis by simp
qed

text \<open>
  Claim C9. In the pending-image branch (no button payload, pending
  \<open>VIBE_CHECK_IMAGE\<close> or \<open>COLOR_ANALYSIS_IMAGE\<close>, at least one image) the router returns
  a state whose pending field is the input's, and which differs from the input state
  in the intent and the missing profile field only.
\<close>

theorem pending_image_branch_frame:
  assumes "\<not> truthy (ButtonPayload (input state))"
    and "pending state = Some VIBE_CHECK_IMAGE \<or> pending state = Some COLOR_ANALYSIS_IMAGE"
    and "numImagesInMessage env (conversationHistoryWithImages state) > 0"
  shows "\<exists>state'. fst (routeIntent env state) = Inr state' \<and>
           pending state' = pending state \<and>
           state'\<lparr>intent := intent state,
                  missingProfileField := missingProfileField state\<rparr> = state"
  using assms by (auto simp: routeIntent_def routePendingImage_def Let_def)

theorem pending_image_branch_frame_witness:
  "\<exists>state'. fst (routeIntent (exEnv (Inr exResponse :: string + LLMOutput))
                   (exState\<lparr>pending := Some COLOR_ANALYSIS_IMAGE\<rparr>)) = Inr state' \<and>
           pending state' = Some COLOR_ANALYSIS_IMAGE \<and>
           state'\<lparr>intent := None, missingProfileField := None\<rparr> =
             exState\<lparr>pending := Some COLOR_ANALYSIS_IMAGE\<rparr>"
  using pending_image_branch_frame [of "exState\<lparr>pending := Some COLOR_ANALYSIS_IMAGE\<rparr>"
      "exEnv (Inr exResponse :: string + LLMOutput)"]
  by (simp add: exState_def exEnv_def)

subsection \<open>Cooldown eligibility\<close>

text \<open>For a last use that is recorded, not the epoch itself and not after \<open>now\<close>,
  eligibility is the floor of the elapsed minutes being at least 30; without a recorded
  last use the feature is eligible.\<close>

lemma canDoVibeCheck_never_used:
  "lastVibeCheckAt u = None \<Longrightarrow> canDoVibeCheck n u"
  by (simp add: canDoVibeCheck_def vibeMinutesAgo_def minutesAgo_def)

lemma canDoVibeCheck_past:
  assumes "lastVibeCheckAt u = Some t" and "t \<noteq> 0" and "t \<le> n"
  shows "canDoVibeCheck n u = ((n - t) div 60000 \<ge> 30)"
proof -
  from assms(3) have "0 \<le> (n - t) div 60000"
    by (simp add: pos_imp_zdiv_nonneg_iff)
  with assms(1,2) show ?thesis
    by (auto simp: canDoVibeCheck_def vibeMinutesAgo_def minutesAgo_def)
qed

lemma canDoColorAnalysis_never_used:
  "lastColorAnalysisAt u = None \<Longrightarrow> canDoColorAnalysis n u"
  by (simp add: canDoColorAnalysis_def colorMinutesAgo_def minutesAgo_def)

lemma canDoColorAnalysis_past:
  assumes "lastColorAnalysisAt u = Some t" and "t \<noteq> 0" and "t \<le> n"
  shows "canDoColorAnalysis n u = ((n - t) div 60000 \<ge> 30)"
proof -
  from assms(3) have "0 \<le> (n - t) div 60000"
    by (simp add: pos_imp_zdiv_nonneg_iff)
  with assms(1,2) show ?thesis
    by (auto simp: canDoColorAnalysis_def colorMinutesAgo_def minutesAgo_def)
qed

lemma canDoVibeCheck_29_minutes:
  "\<not> canDoVibeCheck 1700000000000
       (exUser\<lparr>lastVibeCheckAt := Some (1700000000000 - 29 * 60000)\<rparr>)"
  by (simp add: canDoVibeCheck_def vibeMinutesAgo_def minutesAgo_def)

lemma canDoVibeCheck_30_minutes:
  "canDoVibeCheck 1700000000000
     (exUser\<lparr>lastVibeCheckAt := Some (1700000000000 - 30 * 60000)\<rparr>)"
  by (simp add: canDoVibeCheck_def vibeMinutesAgo_def minutesAgo_def)

text \<open>
  Claim C6. The sentinel \<open>-1\<close> that stands for "never used" is also the floor of an
  elapsed time between \<open>-60000\<close> and \<open>-1\<close> milliseconds. With a last vibe check
  recorded one millisecond after \<open>now\<close>, \<open>canDoVibeCheck\<close> is true although a last use
  is recorded and the floor of the elapsed minutes is \<open>-1\<close>, below 30; the classifier
  is then called with a prompt that says the vibe check is available.
\<close>

theorem canDoVibeCheck_future_timestamp:
  "canDoVibeCheck 1700000000000 (exUser\<lparr>lastVibeCheckAt := Some 1700000000001\<rparr>) \<and>
   \<not> (lastVibeCheckAt (exUser\<lparr>lastVibeCheckAt := Some 1700000000001\<rparr>) = None \<or>
      (1700000000000 - 1700000000001) div (60000 :: int) \<ge> 30) \<and>
   snd (routeIntent (exEnv (Inr exResponse :: string + LLMOutput))
          (exState\<lparr>user := exUser\<lparr>lastVibeCheckAt := Some 1700000000001\<rparr>\<rparr>)) =
     [LoadPrompt ''routing/route_intent.txt'',
      LLMRun ''true/true'' ''routeIntent'',
      LogDebug ''Intent routed via LLM'']"
proof -
  have a: "canDoVibeCheck 1700000000000 (exUser\<lparr>lastVibeCheckAt := Some 1700000000001\<rparr>)"
    by (simp add: canDoVibeCheck_def vibeMinutesAgo_def minutesAgo_def)
  have b: "canDoColorAnalysis 1700000000000 (exUser\<lparr>lastVibeCheckAt := Some 1700000000001\<rparr>)"
    by (simp add: canDoColorAnalysis_def colorMinutesAgo_def minutesAgo_def exUser_def)
  have c: "formattedSystemPrompt 1700000000000 (exUser\<lparr>lastVibeCheckAt := Some 1700000000001\<rparr>)
             ''{can_do_vibe_check}/{can_do_color_analysis}'' = ''true/true''"
    using a b by (rule formattedSystemPrompt_eligible)
  have d: "snd (routeIntent (exEnv (Inr exResponse :: string + LLMOutput))
          (exState\<lparr>user := exUser\<lparr>lastVibeCheckAt := Some 1700000000001\<rparr>\<rparr>)) =
     [LoadPrompt ''routing/route_intent.txt'',
      LLMRun ''true/true'' ''routeIntent'',
      LogDebug ''Intent routed via LLM'']"
    using c
    by (simp add: routeIntent_def routePendingImage_def routeLLM_def exEnv_def exState_def)
  from a d show ?thesis by simp
qed

subsection \<open>Priority 4: the classifier\<close>

text \<open>
  Claim C7. In the classification branch, when the prompt loads and the classifier
  answers: a missing field \<open>gender\<close> is cleared to null if the profile has a confirmed or
  an inferred gender, and a missing field \<open>age_group\<close> is cleared to null if the profile
  has a confirmed or an inferred age group; the intent is the classifier's.
\<close>

theorem routeIntent_suppresses_known_field:
  assumes "reachesLLM env state"
    and "loadPrompt env ''routing/route_intent.txt'' = Inr tpl"
    and "run env (formattedSystemPrompt (now env) (user state) tpl)
           (conversationHistoryTextOnly state) (traceBuffer state) ''routeIntent'' = Inr response"
  shows "(llm_missingProfileField response = Some gender \<and>
          (truthy (confirmedGender (user state)) \<or> truthy (inferredGender (user state))) \<longrightarrow>
            fst (routeIntent env state) =
              Inr (state\<lparr>intent := Some (IntentLabel (llm_intent response)),
                         missingProfileField := None\<rparr>)) \<and>
         (llm_missingProfileField response = Some age_group \<and>
          (truthy (confirmedAgeGroup (user state)) \<or> truthy (inferredAgeGroup (user state))) \<longrightarrow>
            fst (routeIntent env state) =
              Inr (state\<lparr>intent := Some (IntentLabel (llm_intent response)),
                         missingProfileField := None\<rparr>))"
  using assms
  by (auto simp: routeIntent_reachesLLM routeLLM_def suppressMissingField_def Let_def)

theorem routeIntent_suppresses_known_field_witness:
  "fst (routeIntent (exEnv (Inr exResponse :: string + LLMOutput))
          (exState\<lparr>user := exUser\<lparr>confirmedGender := Some ''female''\<rparr>\<rparr>)) =
     Inr (exState\<lparr>user := exUser\<lparr>confirmedGender := Some ''female''\<rparr>,
                  intent := Some ''styling'',
                  missingProfileField := None\<rparr>) \<and>
   fst (routeIntent
          (exEnv (Inr (exResponse\<lparr>llm_missingProfileField := Some age_group\<rparr>)
             :: string + LLMOutput))
          (exState\<lparr>user := exUser\<lparr>inferredAgeGroup := Some ''AGE_18_25''\<rparr>\<rparr>)) =
     Inr (exState\<lparr>user := exUser\<lparr>inferredAgeGroup := Some ''AGE_18_25''\<rparr>,
                  intent := Some ''styling'',
                  missingProfileField := None\<rparr>)"
proof -
  let ?tpl = "''{can_do_vibe_check}/{can_do_color_analysis}''"
  let ?e1 = "exEnv (Inr exResponse :: string + LLMOutput)"
  let ?s1 = "exState\<lparr>user := exUser\<lparr>confirmedGender := Some ''female''\<rparr>\<rparr>"
  let ?r2 = "exResponse\<lparr>llm_missingProfileField := Some age_group\<rparr>"
  let ?e2 = "exEnv (Inr ?r2 :: string + LLMOutput)"
  let ?s2 = "exState\<lparr>user := exUser\<lparr>inferredAgeGroup := Some ''AGE_18_25''\<rparr>\<rparr>"
  have l1: "loadPrompt ?e1 ''routing/route_intent.txt'' = Inr ?tpl"
    and l2: "loadPrompt ?e2 ''routing/route_intent.txt'' = Inr ?tpl"
    by (simp_all add: exEnv_def)
  have r1: "run ?e1 (formattedSystemPrompt (now ?e1) (user ?s1) ?tpl)
              (conversationHistoryTextOnly ?s1) (traceBuffer ?s1) ''routeIntent'' = Inr exResponse"
    by (simp add: exEnv_def)
  have r2: "run ?e2 (formattedSystemPrompt (now ?e2) (user ?s2) ?tpl)
              (conversationHistoryTextOnly ?s2) (traceBuffer ?s2) ''routeIntent'' = Inr ?r2"
    by (simp add: exEnv_def)
  have a: "fst (routeIntent ?e1 ?s1) =
     Inr (?s1\<lparr>intent := Some ''styling'', missingProfileField := None\<rparr>)"
    using routeIntent_suppresses_known_field [OF reachesLLM_exState l1 r1]
    by (simp add: exResponse_def exState_def exUser_def)
  have b: "fst (routeIntent ?e2 ?s2) =
     Inr (?s2\<lparr>intent := Some ''styling'', missingProfileField := None\<rparr>)"
    using routeIntent_suppresses_known_field [OF reachesLLM_exState l2 r2]
    by (simp add: exResponse_def exState_def exUser_def)
  from a b show ?thesis by simp
qed

text \<open>Every failure of the router is the one wrapped error, and no run of the router
  calls the classifier more than once.\<close>

lemma routeIntent_error_generic:
  assumes "fst (routeIntent env state) = Inl e"
  shows "\<exists>cause. e = InternalServerError ''Failed to route intent'' cause"
  using assms
  by (auto simp: routeIntent_def routePendingImage_def routeLLM_def Let_def
      split: if_splits sum.splits)

lemma routeIntent_one_classifier_call:
  "length (filter isLLMRun (snd (routeIntent env state))) \<le> 1"
  by (auto simp: routeIntent_def routePendingImage_def routeLLM_def Let_def
      split: if_splits sum.splits)

lemma routeIntent_prompt_failure:
  assumes "reachesLLM env state"
    and "loadPrompt env ''routing/route_intent.txt'' = Inl cause"
  shows "routeIntent env state =
           (Inl (InternalServerError ''Failed to route intent'' cause),
            [LoadPrompt ''routing/route_intent.txt''])"
  using assms by (simp add: routeIntent_reachesLLM routeLLM_def)

text \<open>
  Claim C8. In the classification branch, whatever value the classifier call throws,
  \<open>routeIntent\<close> ends with the single error \<open>InternalServerError\<close> with the fixed message
  and the thrown value as its cause. The classifier has been called exactly once (no
  retry); the outcome is the error alone, so no state with a default intent is
  returned, and the state the caller passed, which the router only reads, is all the
  caller has.
\<close>

theorem routeIntent_classifier_failure:
  assumes "reachesLLM env state"
    and "loadPrompt env ''routing/route_intent.txt'' = Inr tpl"
    and "run env (formattedSystemPrompt (now env) (user state) tpl)
           (conversationHistoryTextOnly state) (traceBuffer state) ''routeIntent'' = Inl cause"
  shows "routeIntent env state =
           (Inl (InternalServerError ''Failed to route intent'' cause),
            [LoadPrompt ''routing/route_intent.txt'',
             LLMRun (formattedSystemPrompt (now env) (user state) tpl) ''routeIntent'']) \<and>
         length (filter isLLMRun (snd (routeIntent env state))) = 1"
  using assms by (simp add: routeIntent_reachesLLM routeLLM_def Let_def)

theorem routeIntent_classifier_failure_witness:
  "reachesLLM (exEnv (Inl ''timeout'' :: string + LLMOutput)) (exState\<lparr>user := exUser\<rparr>) \<and>
   routeIntent (exEnv (Inl ''timeout'' :: string + LLMOutput)) (exState\<lparr>user := exUser\<rparr>) =
     (Inl (InternalServerError ''Failed to route intent'' ''timeout''),
      [LoadPrompt ''routing/route_intent.txt'', LLMRun ''true/true'' ''routeIntent''])"
proof -
  let ?tpl = "''{can_do_vibe_check}/{can_do_color_analysis}''"
  let ?e = "exEnv (Inl ''timeout'' :: string + LLMOutput)"
  let ?s = "exState\<lparr>user := exUser\<rparr>"
  have l: "loadPrompt ?e ''routing/route_intent.txt'' = Inr ?tpl"
    by (simp add: exEnv_def)
  have r: "run ?e (formattedSystemPrompt (now ?e) (user ?s) ?tpl)
              (conversationHistoryTextOnly ?s) (traceBuffer ?s) ''routeIntent'' = Inl ''timeout''"
    by (simp add: exEnv_def)
  have a: "canDoVibeCheck (now ?e) exUser" "canDoColorAnalysis (now ?e) exUser"
    by (simp_all add: canDoVibeCheck_def vibeMinutesAgo_def canDoColorAnalysis_def
        colorMinutesAgo_def minutesAgo_def exUser_def)
  have u: "user ?s = exUser" by simp
  have f: "formattedSystemPrompt (now ?e) (user ?s) ?tpl = ''true/true''"
    unfolding u using a by (rule formattedSystemPrompt_eligible)
  show ?thesis
    using routeIntent_classifier_failure [OF reachesLLM_exState l r]
      reachesLLM_exState [of "Inl ''timeout'' :: string + LLMOutput" exUser] f
    by simp
qed

subsection \<open>The selected intent\<close>

lemma IntentLabel_closed: "array_includes closedIntents (IntentLabel i)"
  by (cases i) (simp_all add: closedIntents_def array_includes_def)

lemma routeButton_closed:
  assumes "p \<noteq> ''suggest''"
  shows "hasClosedIntent (routeButton p state)"
  using assms
  by (auto simp: routeButton_def hasClosedIntent_def closedIntents_def array_includes_def
      otherValid_def)

lemma routeTonalitySelection_closed:
  assumes "array_includes validTonalities (userMessage state)"
  shows "hasClosedIntent (routeTonalitySelection state)"
  using assms
  by (simp add: routeTonalitySelection_def hasClosedIntent_def closedIntents_def
      array_includes_def)

lemma routeLLM_closed:
  assumes "fst (routeLLM env state) = Inr state'"
  shows "hasClosedIntent state'"
  using assms IntentLabel_closed
  by (auto simp: routeLLM_def hasClosedIntent_def Let_def split: sum.splits)

lemma routePendingImage_closed:
  assumes "fst (routePendingImage env state) = Inr state'"
  shows "hasClosedIntent state'"
proof -
  have "array_includes closedIntents ''vibe_check''"
       "array_includes closedIntents ''color_analysis''"
    by (simp_all add: closedIntents_def array_includes_def)
  then show ?thesis
    using assms routeLLM_closed [of env state state']
    by (auto simp: routePendingImage_def Let_def hasClosedIntent_def split: if_splits)
qed

text \<open>
  Claim C1, as amended. Every state that \<open>routeIntent\<close> returns has one selected intent
  from the closed set \<open>general\<close>, \<open>vibe_check\<close>, \<open>color_analysis\<close>, \<open>styling\<close>, provided the
  turn is not answered by the invalid-tonality branch (no button payload, pending
  \<open>TONALITY_SELECTION\<close>, text not a valid tonality token), which leaves the intent as it
  was, and the button payload is not \<open>suggest\<close>.
\<close>

theorem routeIntent_intent_closed:
  assumes "fst (routeIntent env state) = Inr state'"
    and "\<not> invalidTonalityTurn state"
    and "ButtonPayload (input state) \<noteq> Some ''suggest''"
  shows "hasClosedIntent state'"
proof (cases "truthy (ButtonPayload (input state))")
  case True
  then obtain p where p: "ButtonPayload (input state) = Some p"
    by (cases "ButtonPayload (input state)") auto
  with assms(3) have "p \<noteq> ''suggest''" by simp
  then have "hasClosedIntent (routeButton p state)" by (rule routeButton_closed)
  with True p assms(1) show ?thesis by (simp add: routeIntent_def)
next
  case False
  show ?thesis
  proof (cases "pending state = Some TONALITY_SELECTION")
    case True
    with False assms(2) have "array_includes validTonalities (userMessage state)"
      by (simp add: invalidTonalityTurn_def)
    then have "hasClosedIntent (routeTonalitySelection state)"
      by (rule routeTonalitySelection_closed)
    with True False assms(1) show ?thesis by (simp add: routeIntent_def)
  next
    case nt: False
    with False assms(1) have "fst (routePendingImage env state) = Inr state'"
      by (simp add: routeIntent_def)
    then show ?thesis by (rule routePendingImage_closed)
  qed
qed

theorem routeIntent_intent_closed_witness:
  "fst (routeIntent (exEnv (Inr exResponse :: string + LLMOutput)) exState) =
     Inr (exState\<lparr>intent := Some ''styling'', missingProfileField := Some gender\<rparr>) \<and>
   \<not> invalidTonalityTurn exState \<and>
   ButtonPayload (input exState) \<noteq> Some ''suggest'' \<and>
   hasClosedIntent (exState\<lparr>intent := Some ''styling'', missingProfileField := Some gender\<rparr>)"
proof -
  let ?env = "exEnv (Inr exResponse :: string + LLMOutput)"
  have h1: "fst (routeIntent ?env exState) =
     Inr (exState\<lparr>intent := Some ''styling'', missingProfileField := Some gender\<rparr>)"
    by (simp add: routeIntent_def routePendingImage_def routeLLM_def exEnv_def exResponse_def
        suppressMissingField_def exState_def exUser_def)
  have h2: "\<not> invalidTonalityTurn exState"
    by (simp add: invalidTonalityTurn_def exState_def)
  have h3: "ButtonPayload (input exState) \<noteq> Some ''suggest''"
    by (simp add: exState_def)
  from routeIntent_intent_closed [OF h1 h2 h3] h1 h2 h3 show ?thesis by simp
qed

text \<open>The claim as first stated fails at two inputs: after the text \<open>maybe\<close> under a
  pending tonality selection the returned state has no intent, and the button payload
  \<open>suggest\<close> selects the intent \<open>suggest\<close>, which is outside the closed set.\<close>

theorem routeIntent_intent_not_closed:
  "fst (routeIntent (exEnv (Inr exResponse :: string + LLMOutput))
          (exState\<lparr>input := \<lparr>ButtonPayload = None, Body = Some ''maybe''\<rparr>,
                   pending := Some TONALITY_SELECTION\<rparr>)) =
     Inr (exState\<lparr>input := \<lparr>ButtonPayload = None, Body = Some ''maybe''\<rparr>,
                  pending := Some TONALITY_SELECTION,
                  assistantReply := Some [invalidTonalityReply]\<rparr>) \<and>
   \<not> hasClosedIntent
       (exState\<lparr>input := \<lparr>ButtonPayload = None, Body = Some ''maybe''\<rparr>,
                pending := Some TONALITY_SELECTION,
                assistantReply := Some [invalidTonalityReply]\<rparr>) \<and>
   fst (routeIntent (exEnv (Inr exResponse :: string + LLMOutput))
          (exState\<lparr>input := \<lparr>ButtonPayload = Some ''suggest'', Body = None\<rparr>\<rparr>)) =
     Inr (exState\<lparr>input := \<lparr>ButtonPayload = Some ''suggest'', Body = None\<rparr>,
                  intent := Some ''suggest''\<rparr>) \<and>
   \<not> hasClosedIntent
       (exState\<lparr>input := \<lparr>ButtonPayload = Some ''suggest'', Body = None\<rparr>,
                intent := Some ''suggest''\<rparr>)"
  by (simp add: routeIntent_def routeTonalitySelection_def routeButton_def userMessage_def
      exState_def lower_trim_maybe array_includes_def validTonalities_def stylingRelated_def
      otherValid_def closedIntents_def hasClosedIntent_def)

end
